theory Spec2Isabelle
  imports Complex_Main "HOL-Library.Word" "HOL-Library.Log_Nat"
begin

section \<open>JavaScript strings\<close>

text \<open>
  A JavaScript string is a sequence of UTF-16 code units, and \<open>text.length\<close> counts code
  units. A character above the Basic Multilingual Plane occupies two code units (a lead
  surrogate followed by a trail surrogate).
\<close>

type_synonym jsstring = "16 word list"

definition isLeadSurrogate :: "16 word \<Rightarrow> bool" where
  "isLeadSurrogate u \<longleftrightarrow> 0xD800 \<le> unat u \<and> unat u \<le> 0xDBFF"

definition isTrailSurrogate :: "16 word \<Rightarrow> bool" where
  "isTrailSurrogate u \<longleftrightarrow> 0xDC00 \<le> unat u \<and> unat u \<le> 0xDFFF"

text \<open>
  \<open>char.charCodeAt(0)\<close>: the code unit at index 0 as a number; \<open>NaN\<close> (here \<open>None\<close>) for
  the empty string. It never looks at a second code unit.
\<close>

definition charCodeAt0 :: "jsstring \<Rightarrow> nat option" where
  "charCodeAt0 s = (case s of [] \<Rightarrow> None | u # _ \<Rightarrow> Some (unat u))"

text \<open>
  \<open>char.codePointAt(0)\<close>: the Unicode code point that starts at index 0. A lead surrogate
  followed by a trail surrogate is decoded; any other code unit stands for itself.
\<close>

fun codePointAt0 :: "jsstring \<Rightarrow> nat option" where
  "codePointAt0 [] = None"
| "codePointAt0 [u] = Some (unat u)"
| "codePointAt0 (u # v # rest) =
     (if isLeadSurrogate u \<and> isTrailSurrogate v
      then Some ((unat u - 0xD800) * 0x400 + (unat v - 0xDC00) + 0x10000)
      else Some (unat u))"

text \<open>
  \<open>for (const char of text)\<close>: the string iterator yields one string per code point, of two
  code units for a surrogate pair and of one code unit otherwise (an unpaired surrogate
  is yielded alone).
\<close>

fun stringIterator :: "jsstring \<Rightarrow> jsstring list" where
  "stringIterator [] = []"
| "stringIterator [u] = [[u]]"
| "stringIterator (u # v # rest) =
     (if isLeadSurrogate u \<and> isTrailSurrogate v
      then [u, v] # stringIterator rest
      else [u] # stringIterator (v # rest))"

text \<open>
  \<open>/[...]/.test(char)\<close> for a regular expression that is one character class, without
  flags: it succeeds iff some code unit of the string belongs to the class.
\<close>

definition regexTest :: "(16 word \<Rightarrow> bool) \<Rightarrow> jsstring \<Rightarrow> bool" where
  "regexTest cls s = list_ex cls s"

section \<open>JavaScript numbers\<close>

text \<open>
  A JavaScript number is an IEEE 754 binary64 value. The result of an arithmetic
  operation is the exact result rounded to the nearest representable value, ties to the
  even significand, with gradual underflow and with overflow to infinity.

  \<open>pow2 e\<close> is \<open>2^e\<close> for an integer \<open>e\<close>, and \<open>exponentOf x\<close> is the binary exponent of a
  positive \<open>x\<close>: the \<open>e\<close> with \<open>2^e \<le> x < 2^(e+1)\<close>.
\<close>

definition pow2 :: "int \<Rightarrow> real" where
  "pow2 e = power_int 2 e"

definition exponentOf :: "real \<Rightarrow> int" where
  "exponentOf x = (if 1 \<le> x then bitlen \<lfloor>x\<rfloor> - 1 else - bitlen (\<lceil>1 / x\<rceil> - 1))"

definition roundHalfEven :: "real \<Rightarrow> int" where
  "roundHalfEven y =
     (let f = \<lfloor>y\<rfloor>; d = y - of_int f
      in if d < 1 / 2 then f else if d > 1 / 2 then f + 1 else if even f then f else f + 1)"

text \<open>
  \<open>round64 x\<close> rounds a magnitude to binary64: a significand of 53 bits, the least
  exponent -1022 (below it the spacing stays \<open>2^(-1074)\<close>). Overflow is decided by the
  caller: the rounded magnitude is then \<open>2^1024\<close> or more.
\<close>

definition round64 :: "real \<Rightarrow> real" where
  "round64 x =
     (if x \<le> 0 then 0
      else (let e = max (exponentOf x) (- 1022); q = pow2 (e - 52)
            in q * of_int (roundHalfEven (x / q))))"

text \<open>
  A number is finite, with a sign (\<open>True\<close> for negative) and a magnitude, or infinite
  with a sign, or \<open>NaN\<close>. \<open>Finite False 0\<close> is \<open>+0\<close> and \<open>Finite True 0\<close> is \<open>-0\<close>.
\<close>

datatype jsnum = Finite bool real | Infinity bool | NaN

instantiation jsnum :: "{zero, one}"
begin

definition zero_jsnum :: jsnum where
  "zero_jsnum = Finite False 0"

definition one_jsnum :: jsnum where
  "one_jsnum = Finite False 1"

instance ..

end

definition signed :: "bool \<Rightarrow> real \<Rightarrow> real" where
  "signed s m = (if s then - m else m)"

definition roundTo :: "bool \<Rightarrow> real \<Rightarrow> jsnum" where
  "roundTo s x = (let y = round64 x in if pow2 1024 \<le> y then Infinity s else Finite s y)"

text \<open>
  A numeric literal of the source denotes the binary64 value nearest to its decimal
  value; \<open>ofNat\<close> is the number of a length or a counter.
\<close>

definition lit :: "real \<Rightarrow> jsnum" where
  "lit x = roundTo (x < 0) \<bar>x\<bar>"

definition ofNat :: "nat \<Rightarrow> jsnum" where
  "ofNat n = lit (real n)"

fun jneg :: "jsnum \<Rightarrow> jsnum" where
  "jneg (Finite s m) = Finite (\<not> s) m"
| "jneg (Infinity s) = Infinity (\<not> s)"
| "jneg NaN = NaN"

text \<open>Addition: an exact sum of zero is \<open>-0\<close> only when both operands are negative.\<close>

fun jadd :: "jsnum \<Rightarrow> jsnum \<Rightarrow> jsnum" where
  "jadd NaN b = NaN"
| "jadd a NaN = NaN"
| "jadd (Infinity s) (Infinity t) = (if s = t then Infinity s else NaN)"
| "jadd (Infinity s) (Finite t n) = Infinity s"
| "jadd (Finite s m) (Infinity t) = Infinity t"
| "jadd (Finite s m) (Finite t n) =
     (let v = signed s m + signed t n
      in if v = 0 then Finite (s \<and> t) 0 else roundTo (v < 0) \<bar>v\<bar>)"

definition jsub :: "jsnum \<Rightarrow> jsnum \<Rightarrow> jsnum" where
  "jsub a b = jadd a (jneg b)"

fun jmul :: "jsnum \<Rightarrow> jsnum \<Rightarrow> jsnum" where
  "jmul NaN b = NaN"
| "jmul a NaN = NaN"
| "jmul (Infinity s) (Infinity t) = Infinity (s \<noteq> t)"
| "jmul (Infinity s) (Finite t n) = (if n = 0 then NaN else Infinity (s \<noteq> t))"
| "jmul (Finite s m) (Infinity t) = (if m = 0 then NaN else Infinity (s \<noteq> t))"
| "jmul (Finite s m) (Finite t n) = roundTo (s \<noteq> t) (m * n)"

text \<open>Division: a non-zero number divided by a zero is an infinity, not an error.\<close>

fun jdiv :: "jsnum \<Rightarrow> jsnum \<Rightarrow> jsnum" where
  "jdiv NaN b = NaN"
| "jdiv a NaN = NaN"
| "jdiv (Infinity s) (Infinity t) = NaN"
| "jdiv (Infinity s) (Finite t n) = Infinity (s \<noteq> t)"
| "jdiv (Finite s m) (Infinity t) = Finite (s \<noteq> t) 0"
| "jdiv (Finite s m) (Finite t n) =
     (if n = 0 then (if m = 0 then NaN else Infinity (s \<noteq> t))
      else roundTo (s \<noteq> t) (m / n))"

text \<open>\<open>Math.ceil\<close>; the ceiling of a number in \<open>(-1, 0)\<close> and of \<open>-0\<close> is \<open>-0\<close>.\<close>

fun jceil :: "jsnum \<Rightarrow> jsnum" where
  "jceil NaN = NaN"
| "jceil (Infinity s) = Infinity s"
| "jceil (Finite s m) =
     (let c = \<lceil>signed s m\<rceil>
      in if c = 0 then Finite s 0 else Finite (c < 0) \<bar>real_of_int c\<bar>)"

text \<open>The comparisons \<open><\<close>, \<open>>\<close> and \<open>===\<close>: false whenever an operand is \<open>NaN\<close>.\<close>

fun jlt :: "jsnum \<Rightarrow> jsnum \<Rightarrow> bool" where
  "jlt NaN b = False"
| "jlt a NaN = False"
| "jlt (Infinity s) (Infinity t) = (s \<and> \<not> t)"
| "jlt (Infinity s) (Finite t n) = s"
| "jlt (Finite s m) (Infinity t) = (\<not> t)"
| "jlt (Finite s m) (Finite t n) = (signed s m < signed t n)"

definition jgt :: "jsnum \<Rightarrow> jsnum \<Rightarrow> bool" where
  "jgt a b = jlt b a"

fun jeq :: "jsnum \<Rightarrow> jsnum \<Rightarrow> bool" where
  "jeq NaN b = False"
| "jeq a NaN = False"
| "jeq (Infinity s) (Infinity t) = (s = t)"
| "jeq (Infinity s) (Finite t n) = False"
| "jeq (Finite s m) (Infinity t) = False"
| "jeq (Finite s m) (Finite t n) = (signed s m = signed t n)"

definition jle :: "jsnum \<Rightarrow> jsnum \<Rightarrow> bool" where
  "jle a b \<longleftrightarrow> jlt a b \<or> jeq a b"

text \<open>A number is falsy when it is a zero or \<open>NaN\<close>.\<close>

definition truthyNumber :: "jsnum \<Rightarrow> bool" where
  "truthyNumber a = (case a of NaN \<Rightarrow> False | Infinity s \<Rightarrow> True | Finite s m \<Rightarrow> m \<noteq> 0)"

section \<open>CharacterClassifier\<close>

datatype chartype = Cjk | Latin | Digit | Symbol | Whitespace

text \<open>The disjunction of range tests returned by \<open>isCJKCharacter\<close>, on the number \<open>code\<close>.\<close>

definition cjkRanges :: "nat \<Rightarrow> bool" where
  "cjkRanges code \<longleftrightarrow>
     (code \<ge> 0x2e80 \<and> code \<le> 0x2eff) \<or>
     (code \<ge> 0x3000 \<and> code \<le> 0x303f) \<or>
     (code \<ge> 0x3040 \<and> code \<le> 0x309f) \<or>
     (code \<ge> 0x30a0 \<and> code \<le> 0x30ff) \<or>
     (code \<ge> 0x3100 \<and> code \<le> 0x312f) \<or>
     (code \<ge> 0x3130 \<and> code \<le> 0x318f) \<or>
     (code \<ge> 0x3190 \<and> code \<le> 0x319f) \<or>
     (code \<ge> 0x31a0 \<and> code \<le> 0x31bf) \<or>
     (code \<ge> 0x31c0 \<and> code \<le> 0x31ef) \<or>
     (code \<ge> 0x31f0 \<and> code \<le> 0x31ff) \<or>
     (code \<ge> 0x3200 \<and> code \<le> 0x32ff) \<or>
     (code \<ge> 0x3300 \<and> code \<le> 0x33ff) \<or>
     (code \<ge> 0x3400 \<and> code \<le> 0x4dbf) \<or>
     (code \<ge> 0x4e00 \<and> code \<le> 0x9fff) \<or>
     (code \<ge> 0xa000 \<and> code \<le> 0xa48f) \<or>
     (code \<ge> 0xa490 \<and> code \<le> 0xa4cf) \<or>
     (code \<ge> 0xac00 \<and> code \<le> 0xd7af) \<or>
     (code \<ge> 0xf900 \<and> code \<le> 0xfaff) \<or>
     (code \<ge> 0xfe30 \<and> code \<le> 0xfe4f) \<or>
     (code \<ge> 0xff00 \<and> code \<le> 0xffef) \<or>
     (code \<ge> 0x20000 \<and> code \<le> 0x2a6df) \<or>
     (code \<ge> 0x2a700 \<and> code \<le> 0x2b73f) \<or>
     (code \<ge> 0x2b740 \<and> code \<le> 0x2b81f) \<or>
     (code \<ge> 0x2b820 \<and> code \<le> 0x2ceaf) \<or>
     (code \<ge> 0x2ceb0 \<and> code \<le> 0x2ebef) \<or>
     (code \<ge> 0x30000 \<and> code \<le> 0x3134f)"

text \<open>
  \<open>isCJKCharacter(char)\<close>: \<open>code = char.charCodeAt(0)\<close>, then the range tests. Every
  comparison with \<open>NaN\<close> is false, so the empty string is not CJK.
\<close>

definition isCJKCharacter :: "jsstring \<Rightarrow> bool" where
  "isCJKCharacter char =
     (case charCodeAt0 char of None \<Rightarrow> False | Some code \<Rightarrow> cjkRanges code)"

text \<open>The class of \<open>a-z\<close>, \<open>A-Z\<close>, U+00C0 to U+024F and U+1E00 to U+1EFF.\<close>

definition latinClass :: "16 word \<Rightarrow> bool" where
  "latinClass u \<longleftrightarrow>
     (0x61 \<le> unat u \<and> unat u \<le> 0x7a) \<or>
     (0x41 \<le> unat u \<and> unat u \<le> 0x5a) \<or>
     (0xc0 \<le> unat u \<and> unat u \<le> 0x24f) \<or>
     (0x1e00 \<le> unat u \<and> unat u \<le> 0x1eff)"

text \<open>The class of \<open>0-9\<close>, U+0660 to U+0669 and U+06F0 to U+06F9.\<close>

definition digitClass :: "16 word \<Rightarrow> bool" where
  "digitClass u \<longleftrightarrow>
     (0x30 \<le> unat u \<and> unat u \<le> 0x39) \<or>
     (0x660 \<le> unat u \<and> unat u \<le> 0x669) \<or>
     (0x6f0 \<le> unat u \<and> unat u \<le> 0x6f9)"

text \<open>
  The white space class of ECMAScript regular expressions: the white space code points
  (TAB, VT, FF, SP, NBSP, ZWNBSP and the space separators of Unicode) and the line
  terminators (LF, CR, LS, PS).
\<close>

definition whitespaceClass :: "16 word \<Rightarrow> bool" where
  "whitespaceClass u \<longleftrightarrow>
     (0x09 \<le> unat u \<and> unat u \<le> 0x0d) \<or>
     unat u = 0x20 \<or> unat u = 0xa0 \<or> unat u = 0x1680 \<or>
     (0x2000 \<le> unat u \<and> unat u \<le> 0x200a) \<or>
     unat u = 0x2028 \<or> unat u = 0x2029 \<or> unat u = 0x202f \<or>
     unat u = 0x205f \<or> unat u = 0x3000 \<or> unat u = 0xfeff"

definition getCharacterType :: "jsstring \<Rightarrow> chartype" where
  "getCharacterType char =
     (if isCJKCharacter char then Cjk
      else if regexTest latinClass char then Latin
      else if regexTest digitClass char then Digit
      else if regexTest whitespaceClass char then Whitespace
      else Symbol)"

record counts =
  cjk :: nat
  latin :: nat
  digits :: nat
  symbols :: nat
  whitespace :: nat
  total :: nat

record composition = counts +
  cjkRatio :: jsnum

text \<open>The body of the loop of \<open>analyzeTextComposition\<close>.\<close>

definition countChar :: "counts \<Rightarrow> jsstring \<Rightarrow> counts" where
  "countChar c char =
     (let ty = getCharacterType char in
      if ty = Digit then c\<lparr>digits := digits c + 1\<rparr>
      else if ty = Symbol then c\<lparr>symbols := symbols c + 1\<rparr>
      else (case ty of
              Cjk \<Rightarrow> c\<lparr>cjk := cjk c + 1\<rparr>
            | Latin \<Rightarrow> c\<lparr>latin := latin c + 1\<rparr>
            | Whitespace \<Rightarrow> c\<lparr>whitespace := whitespace c + 1\<rparr>
            | _ \<Rightarrow> c))"

definition analyzeTextComposition :: "jsstring \<Rightarrow> composition" where
  "analyzeTextComposition text =
     (let c = foldl countChar
                \<lparr>cjk = 0, latin = 0, digits = 0, symbols = 0, whitespace = 0,
                 total = length text\<rparr>
                (stringIterator text)
      in \<lparr>cjk = cjk c, latin = latin c, digits = digits c, symbols = symbols c,
          whitespace = whitespace c, total = total c,
          cjkRatio = (if total c > 0 then jdiv (ofNat (cjk c)) (ofNat (total c)) else 0)\<rparr>)"

section \<open>FuzzyTokenEstimator\<close>

text \<open>
  The numbers of a configuration and of a result are JavaScript numbers. Counters and
  lengths are natural numbers (a JavaScript string has fewer than \<open>2^53\<close> code units, so
  counting is exact). An optional field or argument is an \<open>option\<close>, \<open>None\<close> standing
  for \<open>undefined\<close>. Model names are plain strings: only their equality and their
  emptiness matter.
\<close>

datatype whitespace_handling = Ignore | Count | Compress

record FuzzyModelConfig =
  charsPerToken :: jsnum
  overhead :: jsnum
  cjkTokensPerChar :: jsnum
  mixedTextMultiplier :: jsnum
  numberTokensPerChar :: "jsnum option"
  symbolTokensPerChar :: "jsnum option"
  whitespaceHandling :: "whitespace_handling option"

text \<open>
  The provider interface. \<open>getDefaultModel\<close> is an optional method: \<open>None\<close> when the
  provider does not have it, \<open>Some r\<close> when it has it and the call returns \<open>r\<close>.
\<close>

record ModelConfigProvider =
  getConfig :: "string \<Rightarrow> FuzzyModelConfig option"
  getSupportedModels :: "string list"
  getDefaultModel :: "string option option"

record Breakdown =
  b_cjk :: jsnum
  b_latin :: jsnum
  b_digits :: jsnum
  b_symbols :: jsnum
  b_overhead :: jsnum

record TextAnalysis =
  totalChars :: nat
  ta_cjkRatio :: jsnum
  adjustmentFactor :: jsnum

datatype confidence_level = High | Medium | Low

record EstimationResult =
  tokens :: jsnum
  breakdown :: Breakdown
  textAnalysis :: TextAnalysis
  confidence :: confidence_level
  modelUsed :: string

definition DEFAULT_FALLBACK_CONFIG :: FuzzyModelConfig where
  "DEFAULT_FALLBACK_CONFIG =
     \<lparr>charsPerToken = lit 4, overhead = lit 10, cjkTokensPerChar = lit 1.5,
      mixedTextMultiplier = lit 1.05, numberTokensPerChar = Some (lit 3.5),
      symbolTokensPerChar = Some (lit 2.5), whitespaceHandling = Some Compress\<rparr>"

text \<open>
  The operator \<open>||\<close> yields its left operand when that is truthy and its right operand
  otherwise. \<open>undefined\<close>, the empty string, the zeros and \<open>NaN\<close> are falsy; an object
  is truthy.
\<close>

definition truthyString :: "string option \<Rightarrow> bool" where
  "truthyString a = (case a of None \<Rightarrow> False | Some s \<Rightarrow> s \<noteq> [])"

definition orString :: "string option \<Rightarrow> string option \<Rightarrow> string option" where
  "orString a b = (if truthyString a then a else b)"

definition orStringLiteral :: "string option \<Rightarrow> string \<Rightarrow> string" where
  "orStringLiteral a d = (case a of None \<Rightarrow> d | Some s \<Rightarrow> if s \<noteq> [] then s else d)"

definition orNumber :: "jsnum option \<Rightarrow> jsnum \<Rightarrow> jsnum" where
  "orNumber a d = (case a of None \<Rightarrow> d | Some x \<Rightarrow> if truthyNumber x then x else d)"

definition orConfig :: "FuzzyModelConfig option \<Rightarrow> FuzzyModelConfig \<Rightarrow> FuzzyModelConfig" where
  "orConfig a d = (case a of None \<Rightarrow> d | Some c \<Rightarrow> c)"

record EstimatorOptions =
  opt_fallbackConfig :: "FuzzyModelConfig option"
  opt_defaultModel :: "string option"

record FuzzyTokenEstimator =
  modelProvider :: ModelConfigProvider
  fallbackConfig :: FuzzyModelConfig
  defaultModel :: "string option"

text \<open>
  The constructor. \<open>options?.fallbackConfig\<close> and \<open>options?.defaultModel\<close> are
  \<open>undefined\<close> when \<open>options\<close> is, and \<open>modelProvider.getDefaultModel?.()\<close> is
  \<open>undefined\<close> when the provider has no such method.
\<close>

definition newFuzzyTokenEstimator ::
  "ModelConfigProvider \<Rightarrow> EstimatorOptions option \<Rightarrow> FuzzyTokenEstimator" where
  "newFuzzyTokenEstimator provider options =
     \<lparr>modelProvider = provider,
      fallbackConfig =
        orConfig (case options of None \<Rightarrow> None | Some opts \<Rightarrow> opt_fallbackConfig opts)
          DEFAULT_FALLBACK_CONFIG,
      defaultModel =
        orString (case options of None \<Rightarrow> None | Some opts \<Rightarrow> opt_defaultModel opts)
          (case getDefaultModel provider of None \<Rightarrow> None | Some r \<Rightarrow> r)\<rparr>"

definition getModelConfig ::
  "FuzzyTokenEstimator \<Rightarrow> string option \<Rightarrow> FuzzyModelConfig \<times> string" where
  "getModelConfig est modelName =
     (let model = orStringLiteral (orString modelName (defaultModel est)) ''unknown'';
          config = orConfig (getConfig (modelProvider est) model) (fallbackConfig est)
      in (config, model))"

text \<open>
  The state of the grouping loop of \<open>estimateDetailed\<close>: the local variables
  \<open>currentType\<close> (\<open>None\<close> for \<open>null\<close>), \<open>currentGroup\<close> and \<open>breakdown\<close>.
\<close>

record groupState =
  currentType :: "chartype option"
  currentGroup :: jsstring
  gs_breakdown :: Breakdown

text \<open>The closure \<open>processGroup\<close>; \<open>currentGroup.length\<close> counts UTF-16 code units.\<close>

definition processGroup :: "FuzzyModelConfig \<Rightarrow> groupState \<Rightarrow> groupState" where
  "processGroup config st =
     (case currentType st of
        None \<Rightarrow> st
      | Some ty \<Rightarrow>
          if currentGroup st = [] then st
          else
            (let bd = gs_breakdown st;
                 len = ofNat (length (currentGroup st));
                 bd' =
                   (case ty of
                      Cjk \<Rightarrow>
                        bd\<lparr>b_cjk := jadd (b_cjk bd) (jmul len (cjkTokensPerChar config))\<rparr>
                    | Latin \<Rightarrow>
                        bd\<lparr>b_latin := jadd (b_latin bd)
                                       (jceil (jdiv len (charsPerToken config)))\<rparr>
                    | Digit \<Rightarrow>
                        bd\<lparr>b_digits := jadd (b_digits bd)
                            (jceil (jdiv len (orNumber (numberTokensPerChar config) (lit 3.5))))\<rparr>
                    | Symbol \<Rightarrow>
                        bd\<lparr>b_symbols := jadd (b_symbols bd)
                            (jceil (jdiv len (orNumber (symbolTokensPerChar config) (lit 2.5))))\<rparr>
                    | Whitespace \<Rightarrow>
                        if whitespaceHandling config = Some Count
                        then bd\<lparr>b_symbols := jadd (b_symbols bd) (jmul len (lit 0.3))\<rparr>
                        else bd)
             in st\<lparr>gs_breakdown := bd', currentGroup := []\<rparr>))"

text \<open>The body of the loop \<open>for (const char of text)\<close> of \<open>estimateDetailed\<close>.\<close>

definition groupStep :: "FuzzyModelConfig \<Rightarrow> groupState \<Rightarrow> jsstring \<Rightarrow> groupState" where
  "groupStep config st char =
     (let ty = getCharacterType char;
          st1 = (if Some ty \<noteq> currentType st
                 then (processGroup config st)\<lparr>currentType := Some ty\<rparr>
                 else st)
      in st1\<lparr>currentGroup := currentGroup st1 @ char\<rparr>)"

definition calculateAdjustmentFactor :: "jsnum \<Rightarrow> jsnum" where
  "calculateAdjustmentFactor japaneseRatio =
     (if jgt japaneseRatio (lit 0.8) then lit 0.6
      else if jeq japaneseRatio (lit 0) then lit 1.0
      else if jlt japaneseRatio (lit 0.2) then lit 0.7
      else jsub (lit 0.7) (jmul (jdiv (jsub japaneseRatio (lit 0.2)) (lit 0.6)) (lit 0.1)))"

definition calculateConfidence :: "composition \<Rightarrow> confidence_level" where
  "calculateConfidence c =
     (if total c < 10 then Low
      else if jgt (cjkRatio c) (lit 0.9) \<or> jlt (cjkRatio c) (lit 0.1) then High
      else if jgt (jdiv (ofNat (symbols c)) (ofNat (total c))) (lit 0.3) then Low
      else Medium)"

text \<open>
  \<open>Object.values(breakdown).reduce((sum, val) => sum + val, 0)\<close>: the fields in the order
  in which the object literal lists them, added from the left.
\<close>

definition sumBreakdown :: "Breakdown \<Rightarrow> jsnum" where
  "sumBreakdown bd =
     jadd (jadd (jadd (jadd (jadd 0 (b_cjk bd)) (b_latin bd)) (b_digits bd)) (b_symbols bd))
       (b_overhead bd)"

definition estimateDetailed ::
  "FuzzyTokenEstimator \<Rightarrow> jsstring \<Rightarrow> string option \<Rightarrow> EstimationResult" where
  "estimateDetailed est text modelName =
     (let (config, model) = getModelConfig est modelName in
      if text = [] then
        \<lparr>tokens = overhead config,
         breakdown = \<lparr>b_cjk = 0, b_latin = 0, b_digits = 0, b_symbols = 0,
                      b_overhead = overhead config\<rparr>,
         textAnalysis = \<lparr>totalChars = 0, ta_cjkRatio = 0, adjustmentFactor = 1\<rparr>,
         confidence = High,
         modelUsed = model\<rparr>
      else
        (let composition = analyzeTextComposition text;
             st0 = \<lparr>currentType = None, currentGroup = [],
                    gs_breakdown = \<lparr>b_cjk = 0, b_latin = 0, b_digits = 0, b_symbols = 0,
                                    b_overhead = overhead config\<rparr>\<rparr>;
             st = processGroup config (foldl (groupStep config) st0 (stringIterator text));
             baseTokens = jmul (sumBreakdown (gs_breakdown st)) (mixedTextMultiplier config);
             adjustment = calculateAdjustmentFactor (cjkRatio composition);
             finalTokens = jceil (jmul baseTokens adjustment)
         in \<lparr>tokens = finalTokens,
             breakdown = gs_breakdown st,
             textAnalysis = \<lparr>totalChars = length text, ta_cjkRatio = cjkRatio composition,
                             adjustmentFactor = adjustment\<rparr>,
             confidence = calculateConfidence composition,
             modelUsed = model\<rparr>))"

definition estimate :: "FuzzyTokenEstimator \<Rightarrow> jsstring \<Rightarrow> string option \<Rightarrow> jsnum" where
  "estimate est text modelName = tokens (estimateDetailed est text modelName)"

text \<open>
  \<open>SimpleModelConfigProvider\<close>, built from the entries of a configuration object (whose
  keys are distinct) and an optional default model.
\<close>

definition SimpleModelConfigProvider ::
  "(string \<times> FuzzyModelConfig) list \<Rightarrow> string option \<Rightarrow> ModelConfigProvider" where
  "SimpleModelConfigProvider configs dflt =
     \<lparr>getConfig = map_of configs, getSupportedModels = map fst configs,
      getDefaultModel = Some dflt\<rparr>"

text \<open>The fixture of the estimator's test suite: one model, which is also the default.\<close>

definition mockConfig :: FuzzyModelConfig where
  "mockConfig =
     \<lparr>charsPerToken = lit 4, overhead = lit 10, cjkTokensPerChar = lit 1.2,
      mixedTextMultiplier = lit 1.05, numberTokensPerChar = Some (lit 3.5),
      symbolTokensPerChar = Some (lit 2.5), whitespaceHandling = Some Compress\<rparr>"

definition mockEstimator :: FuzzyTokenEstimator where
  "mockEstimator =
     newFuzzyTokenEstimator
       (SimpleModelConfigProvider [(''test-model'', mockConfig)] (Some ''test-model'')) None"

text \<open>A configuration without the optional fields, and an estimator whose only model has it.\<close>

definition bareConfig :: FuzzyModelConfig where
  "bareConfig =
     \<lparr>charsPerToken = lit 4, overhead = lit 10, cjkTokensPerChar = lit 1.2,
      mixedTextMultiplier = lit 1.05, numberTokensPerChar = None,
      symbolTokensPerChar = None, whitespaceHandling = None\<rparr>"

definition bareEstimator :: FuzzyTokenEstimator where
  "bareEstimator =
     newFuzzyTokenEstimator
       (SimpleModelConfigProvider [(''bare-model'', bareConfig)] (Some ''bare-model'')) None"


section \<open>TokenCostCalculator\<close>

text \<open>The decimal representation of a natural number, as \<open>ToString\<close> writes an integer.\<close>

definition digitChar :: "nat \<Rightarrow> char" where
  "digitChar d = ''0123456789'' ! d"

function decimalDigits :: "nat \<Rightarrow> string" where
  "decimalDigits n =
     (if n < 10 then [digitChar n] else decimalDigits (n div 10) @ [digitChar (n mod 10)])"
  by pat_completeness auto
termination
  by (relation "measure id") auto

declare decimalDigits.simps [simp del]















section \<open>Runs of same-category characters\<close>

text \<open>
  The partition of a character sequence into maximal runs of characters of the same
  category, as the specification words the grouping pass: \<open>runs\<close> pairs each run's
  category with the characters of the run, and \<open>consRun\<close> puts a group in front of a
  list of runs, merging it with the first run when the categories agree.
\<close>

fun consRun :: "chartype \<times> jsstring list \<Rightarrow> (chartype \<times> jsstring list) list
                \<Rightarrow> (chartype \<times> jsstring list) list" where
  "consRun (t, g) [] = [(t, g)]"
| "consRun (t, g) ((t', g') # rs) =
     (if t = t' then (t, g @ g') # rs else (t, g) # (t', g') # rs)"

fun runs :: "jsstring list \<Rightarrow> (chartype \<times> jsstring list) list" where
  "runs [] = []"
| "runs (c # cs) = consRun (getCharacterType c, [c]) (runs cs)"

text \<open>
  The number of UTF-16 code units of a run (\<open>currentGroup.length\<close>); the number of its
  characters is the length of the list.
\<close>

definition runLength :: "jsstring list \<Rightarrow> nat" where
  "runLength g = length (concat g)"

text \<open>The runs with their numbers of code units only.\<close>

definition runSizes :: "(chartype \<times> jsstring list) list \<Rightarrow> (chartype \<times> nat) list" where
  "runSizes R = map (\<lambda>r. (fst r, runLength (snd r))) R"

text \<open>
  What one run of a given category and of \<open>L\<close> code units adds to the breakdown, in the
  arithmetic of the program.
\<close>

definition addRun :: "FuzzyModelConfig \<Rightarrow> Breakdown \<Rightarrow> chartype \<times> nat \<Rightarrow> Breakdown" where
  "addRun config bd r =
     (case fst r of
        Cjk \<Rightarrow> bd\<lparr>b_cjk := jadd (b_cjk bd) (jmul (ofNat (snd r)) (cjkTokensPerChar config))\<rparr>
      | Latin \<Rightarrow>
          bd\<lparr>b_latin := jadd (b_latin bd) (jceil (jdiv (ofNat (snd r)) (charsPerToken config)))\<rparr>
      | Digit \<Rightarrow>
          bd\<lparr>b_digits := jadd (b_digits bd)
              (jceil (jdiv (ofNat (snd r))
                 (case numberTokensPerChar config of
                    None \<Rightarrow> lit 3.5
                  | Some v \<Rightarrow> if truthyNumber v then v else lit 3.5)))\<rparr>
      | Symbol \<Rightarrow>
          bd\<lparr>b_symbols := jadd (b_symbols bd)
              (jceil (jdiv (ofNat (snd r))
                 (case symbolTokensPerChar config of
                    None \<Rightarrow> lit 2.5
                  | Some v \<Rightarrow> if truthyNumber v then v else lit 2.5)))\<rparr>
      | Whitespace \<Rightarrow>
          if whitespaceHandling config = Some Count
          then bd\<lparr>b_symbols := jadd (b_symbols bd) (jmul (ofNat (snd r)) (lit 0.3))\<rparr>
          else bd)"

section \<open>Properties of the number model\<close>

lemma bitlen_numeral_step: "bitlen (numeral n) = bitlen (numeral n div 2) + 1"
  by (subst compute_bitlen) simp

lemma bitlen_one [simp]: "bitlen 1 = 1"
  by (subst compute_bitlen) simp

text \<open>The equations that evaluate the arithmetic on numerals.\<close>

lemmas float_eval = round64_def exponentOf_def roundHalfEven_def pow2_def Let_def
  bitlen_numeral_step

lemmas js_eval = float_eval roundTo_def lit_def ofNat_def signed_def jsub_def jgt_def jle_def
  zero_jsnum_def one_jsnum_def

lemma pow2_pos [simp]: "0 < pow2 e"
  by (simp add: pow2_def)

lemma pow2_nonneg [simp]: "0 \<le> pow2 e"
  by (simp add: pow2_def)

lemma pow2_add: "pow2 (a + b) = pow2 a * pow2 b"
  by (simp add: pow2_def power_int_add)

lemma pow2_diff: "pow2 a / pow2 b = pow2 (a - b)"
  by (simp add: pow2_def power_int_diff)

lemma pow2_53: "pow2 53 = of_int (2 ^ 53)" and pow2_52: "pow2 52 = of_int (2 ^ 52)"
  by (simp_all add: pow2_def)

lemma pow2_step53: "pow2 (e - 52) * 2 ^ 53 = pow2 (e + 1)"
proof -
  have "e + 1 = (e - 52) + 53" by arith
  then have "pow2 (e + 1) = pow2 ((e - 52) + 53)" by (rule arg_cong)
  also have "\<dots> = pow2 (e - 52) * pow2 53" by (rule pow2_add)
  finally show ?thesis by (simp add: pow2_53)
qed

lemma pow2_step52: "pow2 (e - 52) * 2 ^ 52 = pow2 e"
proof -
  have "e = (e - 52) + 52" by arith
  then have "pow2 e = pow2 ((e - 52) + 52)" by (rule arg_cong)
  also have "\<dots> = pow2 (e - 52) * pow2 52" by (rule pow2_add)
  finally show ?thesis by (simp add: pow2_52)
qed

lemma pow2_nat: "0 \<le> e \<Longrightarrow> pow2 e = 2 ^ nat e"
  by (simp add: pow2_def power_int_def)

lemma pow2_neg: "pow2 (- e) = 1 / pow2 e"
  by (simp add: pow2_def power_int_minus_divide)

lemma pow2_mono: "a \<le> b \<Longrightarrow> pow2 a \<le> pow2 b"
  by (simp add: pow2_def power_int_increasing)

lemma pow2_less_cancel: "pow2 a < pow2 b \<Longrightarrow> a < b"
  using pow2_mono [of b a] by (cases "a < b") auto

lemma exponentOf_bounds:
  assumes "0 < x"
  shows "pow2 (exponentOf x) \<le> x" and "x < pow2 (exponentOf x + 1)"
proof -
  have "pow2 (exponentOf x) \<le> x \<and> x < pow2 (exponentOf x + 1)"
  proof (cases "1 \<le> x")
    case True
    define k where "k = \<lfloor>x\<rfloor>"
    have k: "0 < k" using True by (simp add: k_def)
    have b1: "1 \<le> bitlen k" using k by (simp add: bitlen_alt_def)
    from bitlen_bounds [OF k]
    have lo: "(2::int) ^ nat (bitlen k - 1) \<le> k" and hi: "k < 2 ^ nat (bitlen k)" by auto
    have "real_of_int ((2::int) ^ nat (bitlen k - 1)) \<le> real_of_int k"
      using lo by (simp only: of_int_le_iff)
    moreover have "real_of_int k \<le> x" by (simp add: k_def)
    ultimately have "real_of_int ((2::int) ^ nat (bitlen k - 1)) \<le> x" by linarith
    then have 1: "pow2 (bitlen k - 1) \<le> x"
      using b1 by (simp add: pow2_nat)
    have "k + 1 \<le> 2 ^ nat (bitlen k)" using hi by simp
    then have "real_of_int (k + 1) \<le> real_of_int (2 ^ nat (bitlen k))"
      by (simp only: of_int_le_iff)
    moreover have "x < real_of_int (k + 1)" by (simp add: k_def)
    ultimately have 2: "x < pow2 (bitlen k)"
      using b1 by (simp add: pow2_nat)
    show ?thesis using True 1 2 by (simp add: exponentOf_def k_def)
  next
    case False
    define y where "y = 1 / x"
    define c where "c = \<lceil>y\<rceil>"
    have y: "1 < y" using False assms by (simp add: y_def)
    have c: "0 < c - 1" using y by (simp add: c_def; linarith)
    define b where "b = bitlen (c - 1)"
    have b1: "1 \<le> b" using c by (simp add: b_def bitlen_alt_def)
    from bitlen_bounds [OF c]
    have lo: "(2::int) ^ nat (b - 1) \<le> c - 1" and hi: "c - 1 < 2 ^ nat b"
      by (auto simp: b_def)
    have "c \<le> 2 ^ nat b" using hi by simp
    then have "real_of_int c \<le> real_of_int (2 ^ nat b)" by (simp only: of_int_le_iff)
    moreover have "y \<le> real_of_int c" by (simp add: c_def)
    moreover have "real_of_int (2 ^ nat b) = 2 ^ nat b" by simp
    ultimately have "y \<le> 2 ^ nat b" by linarith
    then have "1 / 2 ^ nat b \<le> x"
      using assms by (simp add: y_def field_simps)
    then have 1: "pow2 (- b) \<le> x"
      using b1 by (simp add: pow2_neg pow2_nat)
    have "real_of_int (2 ^ nat (b - 1)) \<le> real_of_int (c - 1)"
      using lo by (simp only: of_int_le_iff)
    moreover have "real_of_int (c - 1) < y" by (simp add: c_def; linarith)
    moreover have "real_of_int (2 ^ nat (b - 1)) = 2 ^ nat (b - 1)" by simp
    ultimately have "2 ^ nat (b - 1) < y" by linarith
    then have "x < 1 / 2 ^ nat (b - 1)"
      using assms by (simp add: y_def field_simps)
    moreover have "pow2 (- b + 1) = 1 / 2 ^ nat (b - 1)"
      using b1 pow2_neg [of "b - 1"] by (simp add: pow2_nat)
    ultimately have 2: "x < pow2 (- b + 1)" by simp
    show ?thesis using False 1 2 by (simp add: exponentOf_def y_def c_def b_def)
  qed
  then show "pow2 (exponentOf x) \<le> x" and "x < pow2 (exponentOf x + 1)" by auto
qed

lemma exponentOf_mono:
  assumes "0 < x" and "x \<le> y"
  shows "exponentOf x \<le> exponentOf y"
proof -
  have "pow2 (exponentOf x) < pow2 (exponentOf y + 1)"
    using exponentOf_bounds(1) [OF assms(1)] exponentOf_bounds(2) [of y] assms by linarith
  then show ?thesis using pow2_less_cancel by fastforce
qed

lemma roundHalfEven_cases:
  "roundHalfEven y = \<lfloor>y\<rfloor> \<or> roundHalfEven y = \<lfloor>y\<rfloor> + 1"
  by (simp add: roundHalfEven_def Let_def)

lemma roundHalfEven_of_int [simp]: "roundHalfEven (of_int n) = n"
  by (simp add: roundHalfEven_def Let_def)

lemma roundHalfEven_mono:
  assumes "a \<le> b"
  shows "roundHalfEven a \<le> roundHalfEven b"
proof (cases "\<lfloor>a\<rfloor> = \<lfloor>b\<rfloor>")
  case True
  then show ?thesis
    using assms by (auto simp: roundHalfEven_def Let_def)
next
  case False
  then have "\<lfloor>a\<rfloor> + 1 \<le> \<lfloor>b\<rfloor>"
    using assms floor_mono [of a b] by linarith
  moreover have "roundHalfEven a \<le> \<lfloor>a\<rfloor> + 1" "\<lfloor>b\<rfloor> \<le> roundHalfEven b"
    using roundHalfEven_cases [of a] roundHalfEven_cases [of b] by auto
  ultimately show ?thesis by linarith
qed

lemma roundHalfEven_error: "\<bar>real_of_int (roundHalfEven y) - y\<bar> \<le> 1 / 2"
  by (auto simp: roundHalfEven_def Let_def)

lemma round64_nonneg: "0 \<le> round64 x"
proof (cases "x \<le> 0")
  case True
  then show ?thesis by (simp add: round64_def)
next
  case False
  then have "0 \<le> x / pow2 (max (exponentOf x) (- 1022) - 52)"
    by (intro divide_nonneg_nonneg) simp_all
  then have "0 \<le> roundHalfEven (x / pow2 (max (exponentOf x) (- 1022) - 52))"
    using roundHalfEven_mono [of 0 "x / pow2 (max (exponentOf x) (- 1022) - 52)"]
      roundHalfEven_of_int [of 0] by simp
  then show ?thesis using False by (simp add: round64_def Let_def)
qed

lemma round64_mono:
  assumes "x \<le> y"
  shows "round64 x \<le> round64 y"
proof (cases "x \<le> 0")
  case True
  then show ?thesis using round64_nonneg [of y] by (simp add: round64_def)
next
  case False
  then have x: "0 < x" and y: "0 < y" using assms by auto
  define ex where "ex = max (exponentOf x) (- 1022)"
  define ey where "ey = max (exponentOf y) (- 1022)"
  have le: "ex \<le> ey"
    using exponentOf_mono [OF x assms] by (simp add: ex_def ey_def)
  have rx: "round64 x = pow2 (ex - 52) * of_int (roundHalfEven (x / pow2 (ex - 52)))"
    using x by (simp add: round64_def Let_def ex_def)
  have ry: "round64 y = pow2 (ey - 52) * of_int (roundHalfEven (y / pow2 (ey - 52)))"
    using y by (simp add: round64_def Let_def ey_def)
  show ?thesis
  proof (cases "ex = ey")
    case True
    have "x / pow2 (ey - 52) \<le> y / pow2 (ey - 52)"
      using assms by (intro divide_right_mono) simp_all
    then have "roundHalfEven (x / pow2 (ey - 52)) \<le> roundHalfEven (y / pow2 (ey - 52))"
      by (rule roundHalfEven_mono)
    then show ?thesis
      unfolding rx ry True by (simp add: mult_left_mono)
  next
    case False
    then have lt: "ex + 1 \<le> ey" using le by simp
    then have eyy: "ey = exponentOf y"
      using ex_def ey_def by linarith
    have "x < pow2 (exponentOf x + 1)" using exponentOf_bounds(2) [OF x] .
    also have "\<dots> \<le> pow2 (ex + 1)" by (rule pow2_mono) (simp add: ex_def)
    finally have "x / pow2 (ex - 52) \<le> pow2 (ex + 1) / pow2 (ex - 52)"
      by (intro divide_right_mono) simp_all
    moreover have "pow2 (ex + 1) / pow2 (ex - 52) = of_int (2 ^ 53)"
      unfolding pow2_diff pow2_53 [symmetric] by simp
    ultimately have "roundHalfEven (x / pow2 (ex - 52)) \<le> 2 ^ 53"
      using roundHalfEven_mono [of "x / pow2 (ex - 52)" "of_int (2 ^ 53)"]
      by (simp only: roundHalfEven_of_int)
    then have "real_of_int (roundHalfEven (x / pow2 (ex - 52))) \<le> 2 ^ 53"
      by (metis of_int_le_iff of_int_numeral of_int_power)
    then have "round64 x \<le> pow2 (ex - 52) * 2 ^ 53"
      unfolding rx by (simp add: mult_left_mono)
    also have "\<dots> = pow2 (ex + 1)"
      by (rule pow2_step53)
    also have "\<dots> \<le> pow2 ey" using lt by (rule pow2_mono)
    finally have 1: "round64 x \<le> pow2 ey" .
    have "pow2 ey \<le> y" using exponentOf_bounds(1) [OF y] eyy by simp
    then have "pow2 ey / pow2 (ey - 52) \<le> y / pow2 (ey - 52)"
      by (intro divide_right_mono) simp_all
    moreover have "pow2 ey / pow2 (ey - 52) = of_int (2 ^ 52)"
      unfolding pow2_diff pow2_52 [symmetric] by simp
    ultimately have "2 ^ 52 \<le> roundHalfEven (y / pow2 (ey - 52))"
      using roundHalfEven_mono [of "of_int (2 ^ 52)" "y / pow2 (ey - 52)"]
      by (simp only: roundHalfEven_of_int)
    then have "2 ^ 52 \<le> real_of_int (roundHalfEven (y / pow2 (ey - 52)))"
      by (metis of_int_le_iff of_int_numeral of_int_power)
    then have "pow2 (ey - 52) * 2 ^ 52 \<le> round64 y"
      unfolding ry by (simp add: mult_left_mono)
    moreover have "pow2 (ey - 52) * 2 ^ 52 = pow2 ey"
      by (rule pow2_step52)
    ultimately have 2: "pow2 ey \<le> round64 y" by simp
    show ?thesis using 1 2 by linarith
  qed
qed

text \<open>Small results do not overflow; subtraction and comparison of finite numbers.\<close>

lemma pow2_1024_large: "2 ^ 53 < pow2 1024"
  by (simp add: pow2_def)


lemma round64_one: "round64 1 = 1"
  by (simp add: float_eval)

lemma round64_two: "round64 2 = 2"
  by (simp add: float_eval)

lemma round64_2_53: "round64 (2 ^ 53) = 2 ^ 53"
  by (simp add: float_eval)

lemma roundTo_small: "x \<le> 2 \<Longrightarrow> roundTo s x = Finite s (round64 x)"
  using round64_mono [of x 2] pow2_1024_large by (simp add: roundTo_def round64_two Let_def)

lemma signed_False: "signed False x = x"
  by (simp add: signed_def)



lemma jle_Finite_False: "jle (Finite False v) (Finite False w) \<longleftrightarrow> v \<le> w"
  by (auto simp add: jle_def signed_False)

text \<open>The number of a length below \<open>2^53\<close> is finite, and a ratio of such numbers is in \<open>[0,1]\<close>.\<close>

lemma ofNat_small:
  assumes "n < 2 ^ 53"
  shows "ofNat n = Finite False (round64 (real n))"
proof -
  have "real n \<le> 2 ^ 53"
    using assms by (metis less_imp_le of_nat_le_iff of_nat_numeral of_nat_power)
  then have "round64 (real n) \<le> 2 ^ 53"
    using round64_mono [of "real n" "2 ^ 53"] by (simp only: round64_2_53)
  then have "\<not> pow2 1024 \<le> round64 (real n)"
    using pow2_1024_large by linarith
  then show ?thesis
    by (simp add: ofNat_def lit_def roundTo_def Let_def)
qed

lemma jdiv_ratio:
  assumes "0 \<le> c" and "c \<le> t" and "0 < t"
  shows "\<exists>v. jdiv (Finite False c) (Finite False t) = Finite False v \<and> 0 \<le> v \<and> v \<le> 1"
proof -
  have q: "c / t \<le> 1"
    using assms by simp
  then have "roundTo False (c / t) = Finite False (round64 (c / t))"
    by (intro roundTo_small) linarith
  moreover have "round64 (c / t) \<le> 1"
    using round64_mono [OF q] by (simp only: round64_one)
  ultimately show ?thesis
    using assms(3) by (simp add: round64_nonneg)
qed

section \<open>Properties of the classifier\<close>

lemmas classifier_defs = getCharacterType_def isCJKCharacter_def charCodeAt0_def cjkRanges_def
  isLeadSurrogate_def isTrailSurrogate_def regexTest_def latinClass_def digitClass_def
  whitespaceClass_def

lemma ceiling_one_divide_numeral [simp]: "\<lceil>(1::real) / numeral b\<rceil> = 1"
  by (rule ceiling_unique) simp_all

lemma isCJKCharacter_single: "isCJKCharacter [u] = cjkRanges (unat u)"
  by (simp add: isCJKCharacter_def charCodeAt0_def)

lemma isCJKCharacter_lead: "isLeadSurrogate u \<Longrightarrow> \<not> isCJKCharacter (u # rest)"
  by (simp add: isCJKCharacter_def charCodeAt0_def cjkRanges_def isLeadSurrogate_def)

text \<open>
  C1. The claim: a one-character string is CJK iff its code point lies in one of the listed
  ranges, Extensions B to G included. The code reads \<open>charCodeAt(0)\<close>, a UTF-16 code unit
  below \<open>0x10000\<close>: for the character U+20000 (first of Extension B, the string of the two
  code units D840 DC00) the code point is in the listed range \<open>0x20000..0x2a6df\<close>, yet the
  code answers false and classifies the character as a symbol.
\<close>

theorem isCJKCharacter_extB_not_recognized:
  "codePointAt0 [0xD840, 0xDC00] = Some 0x20000
   \<and> cjkRanges 0x20000
   \<and> stringIterator [0xD840, 0xDC00] = [[0xD840, 0xDC00]]
   \<and> isCJKCharacter [0xD840, 0xDC00] = False
   \<and> getCharacterType [0xD840, 0xDC00] = Symbol"
  by (simp add: isCJKCharacter_def charCodeAt0_def cjkRanges_def isLeadSurrogate_def
      isTrailSurrogate_def getCharacterType_def regexTest_def latinClass_def digitClass_def
      whitespaceClass_def)

section \<open>Properties of the composition\<close>

lemma counts_foldl:
  "cjk (foldl countChar c cs) + latin (foldl countChar c cs) + digits (foldl countChar c cs)
     + symbols (foldl countChar c cs) + whitespace (foldl countChar c cs)
   = cjk c + latin c + digits c + symbols c + whitespace c + length cs"
  by (induction cs arbitrary: c) (auto simp: countChar_def Let_def split: chartype.splits)

lemma total_foldl: "total (foldl countChar c cs) = total c"
  by (induction cs arbitrary: c) (auto simp: countChar_def Let_def split: chartype.splits)

lemma length_stringIterator: "length (stringIterator s) \<le> length s"
  by (induction s rule: stringIterator.induct) auto

lemma concat_stringIterator: "concat (stringIterator s) = s"
  by (induction s rule: stringIterator.induct) auto

text \<open>
  What the code guarantees: the five counts add up to the number of code points that the
  iterator yields, \<open>total\<close> is the number of UTF-16 code units, and the ratio is in \<open>[0,1]\<close>
  (for a text of fewer than \<open>2^53\<close> code units, whose counts are exact numbers).
\<close>

lemma composition_sum:
  "cjk (analyzeTextComposition t) + latin (analyzeTextComposition t)
     + digits (analyzeTextComposition t) + symbols (analyzeTextComposition t)
     + whitespace (analyzeTextComposition t) = length (stringIterator t)"
  using counts_foldl [of "\<lparr>cjk = 0, latin = 0, digits = 0, symbols = 0, whitespace = 0,
                 total = length t\<rparr>" "stringIterator t"]
  by (simp add: analyzeTextComposition_def Let_def)

lemma composition_total: "total (analyzeTextComposition t) = length t"
  by (simp add: analyzeTextComposition_def Let_def total_foldl)

lemma composition_ratio:
  assumes "length t < 2 ^ 53"
  shows "jle 0 (cjkRatio (analyzeTextComposition t)) \<and> jle (cjkRatio (analyzeTextComposition t)) 1"
proof (cases "length t = 0")
  case True
  then show ?thesis
    by (simp add: analyzeTextComposition_def Let_def total_foldl zero_jsnum_def one_jsnum_def
        jle_def signed_False)
next
  case False
  let ?c = "cjk (analyzeTextComposition t)"
  have le: "?c \<le> length t"
    using composition_sum [of t] length_stringIterator [of t] by linarith
  then have c: "ofNat ?c = Finite False (round64 (real ?c))"
    using assms by (intro ofNat_small) linarith
  have t: "ofNat (length t) = Finite False (round64 (real (length t)))"
    using assms by (rule ofNat_small)
  have "1 \<le> real (length t)"
    using False by (cases t) simp_all
  then have "round64 1 \<le> round64 (real (length t))"
    by (rule round64_mono)
  then have pos: "0 < round64 (real (length t))"
    unfolding round64_one by linarith
  have "round64 (real ?c) \<le> round64 (real (length t))"
    using le by (intro round64_mono) simp
  from jdiv_ratio [OF round64_nonneg this pos] obtain v where
    v: "jdiv (ofNat ?c) (ofNat (length t)) = Finite False v" "0 \<le> v" "v \<le> 1"
    unfolding c t by blast
  have "cjkRatio (analyzeTextComposition t) = jdiv (ofNat ?c) (ofNat (length t))"
    using False by (simp add: analyzeTextComposition_def Let_def total_foldl)
  then show ?thesis
    using v by (simp add: zero_jsnum_def one_jsnum_def jle_Finite_False)
qed

text \<open>
  C2. The claim: for every text, also with characters outside the Basic Multilingual Plane,
  the five counts add up to \<open>total\<close>. The code sets \<open>total\<close> to \<open>text.length\<close> (code
  units) and counts once per code point: for the one-character text U+1F600 (code units
  D83D DE00) the counts add up to 1 and \<open>total\<close> is 2.
\<close>

theorem analyzeTextComposition_astral_sum_not_total:
  "cjk (analyzeTextComposition [0xD83D, 0xDE00]) + latin (analyzeTextComposition [0xD83D, 0xDE00])
     + digits (analyzeTextComposition [0xD83D, 0xDE00])
     + symbols (analyzeTextComposition [0xD83D, 0xDE00])
     + whitespace (analyzeTextComposition [0xD83D, 0xDE00]) = 1
   \<and> total (analyzeTextComposition [0xD83D, 0xDE00]) = 2"
  by (simp add: analyzeTextComposition_def countChar_def getCharacterType_def
      isCJKCharacter_def charCodeAt0_def cjkRanges_def isLeadSurrogate_def
      isTrailSurrogate_def regexTest_def latinClass_def digitClass_def whitespaceClass_def)

section \<open>Properties of the estimator\<close>

text \<open>
  C6. For the empty text \<open>estimateDetailed\<close> returns the overhead of the resolved
  configuration as the token total, with no multiplier and no adjustment applied to it,
  zero for the cjk, latin, digits and symbols entries of the breakdown, zero total
  characters, CJK ratio 0, adjustment factor 1, and confidence high.
\<close>

theorem estimateDetailed_empty_text:
  "estimateDetailed est [] modelName =
     \<lparr>tokens = overhead (fst (getModelConfig est modelName)),
      breakdown = \<lparr>b_cjk = 0, b_latin = 0, b_digits = 0, b_symbols = 0,
                   b_overhead = overhead (fst (getModelConfig est modelName))\<rparr>,
      textAnalysis = \<lparr>totalChars = 0, ta_cjkRatio = 0, adjustmentFactor = 1\<rparr>,
      confidence = High,
      modelUsed = snd (getModelConfig est modelName)\<rparr>"
  by (simp add: estimateDetailed_def split: prod.splits)

section \<open>Model resolution\<close>














lemma mockEstimator_default:
  "getModelConfig mockEstimator None = (mockConfig, ''test-model'')"
  by (simp add: getModelConfig_def mockEstimator_def newFuzzyTokenEstimator_def
      SimpleModelConfigProvider_def orString_def orStringLiteral_def truthyString_def orConfig_def)





text \<open>
  C10. Called with the empty string as the model name, \<open>estimateDetailed\<close> returns what it
  returns when the model name is absent, for every text and every estimator: the resolved
  model is then the engine's default model when that is a non-empty string, and
  \<open>unknown\<close> otherwise. The \<open>modelUsed\<close> field is never the empty string, whatever the
  model name.
\<close>

theorem empty_model_name_is_missing:
  "estimateDetailed est text (Some []) = estimateDetailed est text None
   \<and> modelUsed (estimateDetailed est text (Some [])) =
       (case defaultModel est of None \<Rightarrow> ''unknown''
        | Some d \<Rightarrow> if d \<noteq> [] then d else ''unknown'')
   \<and> modelUsed (estimateDetailed est text modelName) \<noteq> []"
  by (auto simp add: estimateDetailed_def getModelConfig_def orString_def truthyString_def
      orStringLiteral_def Let_def split: option.splits)

section \<open>The adjustment factor\<close>

text \<open>The binary64 values of the literals of \<open>calculateAdjustmentFactor\<close>.\<close>

lemma lit_values:
  "lit 0 = Finite False 0"
  "lit 1 = Finite False 1"
  "lit 1.0 = Finite False 1"
  "lit 0.1 = Finite False (3602879701896397 / 36028797018963968)"
  "lit 0.2 = Finite False (3602879701896397 / 18014398509481984)"
  "lit 0.6 = Finite False (5404319552844595 / 9007199254740992)"
  "lit 0.7 = Finite False (3152519739159347 / 4503599627370496)"
  "lit 0.8 = Finite False (3602879701896397 / 4503599627370496)"
  by (simp_all add: js_eval)

text \<open>
  C4. For every CJK ratio \<open>r\<close> in \<open>[0,1]\<close> the adjustment factor is 0.6 if \<open>r > 0.8\<close>,
  1.0 if \<open>r = 0\<close>, 0.7 if \<open>0 < r < 0.2\<close>, and \<open>0.7 - ((r - 0.2) / 0.6) * 0.1\<close> if
  \<open>0.2 \<le> r \<le> 0.8\<close>, where the constants are the numbers that the literals denote and the
  comparisons, the subtractions, the division and the multiplication are those of the
  program's numbers, each rounding its result.
\<close>

theorem calculateAdjustmentFactor_cases:
  assumes "jle (lit 0) r" and "jle r (lit 1)"
  shows "(jgt r (lit 0.8) \<longrightarrow> calculateAdjustmentFactor r = lit 0.6)
       \<and> (jeq r (lit 0) \<longrightarrow> calculateAdjustmentFactor r = lit 1.0)
       \<and> (jlt (lit 0) r \<and> jlt r (lit 0.2) \<longrightarrow> calculateAdjustmentFactor r = lit 0.7)
       \<and> (jle (lit 0.2) r \<and> jle r (lit 0.8) \<longrightarrow>
            calculateAdjustmentFactor r =
              jsub (lit 0.7) (jmul (jdiv (jsub r (lit 0.2)) (lit 0.6)) (lit 0.1)))"
  using assms unfolding calculateAdjustmentFactor_def lit_values
  by (cases r) (auto simp add: jgt_def jle_def signed_def split: if_splits)

text \<open>
  At the ratios 0.9, 0, 0.1 and 0.5: the factor at 0.5 is the number written
  0.6499999999999999, the one just below the number that 0.65 denotes.
\<close>

theorem calculateAdjustmentFactor_cases_witness:
  "jle (lit 0) (lit 0.5) \<and> jle (lit 0.5) (lit 1)
   \<and> jle (lit 0.2) (lit 0.5) \<and> jle (lit 0.5) (lit 0.8)
   \<and> calculateAdjustmentFactor (lit 0.5) = Finite False (1463669878895411 / 2251799813685248)
   \<and> jlt (calculateAdjustmentFactor (lit 0.5)) (lit 0.65)
   \<and> jgt (lit 0.9) (lit 0.8) \<and> calculateAdjustmentFactor (lit 0.9) = lit 0.6
   \<and> jeq (lit 0) (lit 0) \<and> calculateAdjustmentFactor (lit 0) = lit 1.0
   \<and> jlt (lit 0) (lit 0.1) \<and> jlt (lit 0.1) (lit 0.2)
   \<and> calculateAdjustmentFactor (lit 0.1) = lit 0.7"
  using calculateAdjustmentFactor_cases [of "lit 0.5"] calculateAdjustmentFactor_cases [of "lit 0.9"]
    calculateAdjustmentFactor_cases [of "lit 0"] calculateAdjustmentFactor_cases [of "lit 0.1"]
  by (simp add: js_eval)














section \<open>The confidence label\<close>




section \<open>The run-grouping pass\<close>

text \<open>
  \<open>runs\<close> is the partition into maximal runs: the runs concatenate to the character
  sequence, each run is non-empty and of one category, and adjacent runs differ in category.
\<close>

lemma consRun_head: "\<exists>g' rs. consRun (t, g) R = (t, g') # rs"
  by (cases R) auto

lemma runs_head: "\<exists>g rs. runs (c # cs) = (getCharacterType c, g) # rs"
  by (simp add: consRun_head)

lemma consRun_assoc: "consRun (t, g) (consRun (t, h) R) = consRun (t, g @ h) R"
  by (cases R) auto

lemma consRun_other: "fst (hd R) \<noteq> t \<Longrightarrow> R \<noteq> [] \<Longrightarrow> consRun (t, g) R = (t, g) # R"
  by (cases R) auto

lemma concat_consRun: "concat (map snd (consRun (t, g) R)) = g @ concat (map snd R)"
  by (cases R) auto

lemma runs_concat: "concat (map snd (runs cs)) = cs"
  by (induction cs) (simp_all add: concat_consRun)

lemma consRun_set:
  "r \<in> set (consRun (t, g) R) \<Longrightarrow>
     r = (t, g) \<or> r \<in> set R \<or> (\<exists>g'. (t, g') \<in> set R \<and> r = (t, g @ g'))"
  by (cases R) (auto split: if_splits)

lemma runs_sound:
  "(t, g) \<in> set (runs cs) \<Longrightarrow> g \<noteq> [] \<and> (\<forall>c \<in> set g. getCharacterType c = t)"
proof (induction cs arbitrary: t g)
  case Nil
  then show ?case by simp
next
  case (Cons c cs)
  from consRun_set [OF Cons.prems [simplified]] Cons.IH show ?case
    by auto
qed

lemma distinct_adj_consRun:
  "distinct_adj (map fst R) \<Longrightarrow> distinct_adj (map fst (consRun (t, g) R))"
  by (cases R) auto

lemma runs_maximal: "distinct_adj (map fst (runs cs))"
  by (induction cs) (simp_all add: distinct_adj_consRun)

lemma processGroup_pending:
  "currentType st = Some t \<Longrightarrow> currentGroup st \<noteq> [] \<Longrightarrow>
   processGroup config st =
     st\<lparr>gs_breakdown := addRun config (gs_breakdown st) (t, length (currentGroup st)),
        currentGroup := []\<rparr>"
  by (simp add: processGroup_def addRun_def orNumber_def Let_def
      split: chartype.splits option.splits)

lemma processGroup_null: "currentType st = None \<Longrightarrow> processGroup config st = st"
  by (simp add: processGroup_def)

lemma loop_invariant:
  assumes "currentType st = Some t" and "currentGroup st = concat g"
    and "concat g \<noteq> []" and "\<forall>c \<in> set cs. c \<noteq> []"
  shows "gs_breakdown (processGroup config (foldl (groupStep config) st cs)) =
         foldl (addRun config) (gs_breakdown st) (runSizes (consRun (t, g) (runs cs)))"
  using assms
proof (induction cs arbitrary: st t g)
  case Nil
  then show ?case
    by (simp add: processGroup_pending runSizes_def runLength_def)
next
  case (Cons c cs)
  show ?case
  proof (cases "getCharacterType c = t")
    case True
    let ?st = "groupStep config st c"
    have st': "currentType ?st = Some t" "currentGroup ?st = concat (g @ [c])"
      "gs_breakdown ?st = gs_breakdown st"
      using Cons.prems True by (simp_all add: groupStep_def Let_def)
    have "gs_breakdown (processGroup config (foldl (groupStep config) ?st cs)) =
          foldl (addRun config) (gs_breakdown ?st) (runSizes (consRun (t, g @ [c]) (runs cs)))"
      using Cons.prems st' by (intro Cons.IH) auto
    then show ?thesis
      using True by (simp add: st' consRun_assoc)
  next
    case False
    let ?st = "groupStep config st c"
    have st': "currentType ?st = Some (getCharacterType c)" "currentGroup ?st = concat [c]"
      "gs_breakdown ?st = addRun config (gs_breakdown st) (t, runLength g)"
      using Cons.prems False
      by (simp_all add: groupStep_def Let_def processGroup_pending runLength_def)
    have ih: "gs_breakdown (processGroup config (foldl (groupStep config) ?st cs)) =
          foldl (addRun config) (gs_breakdown ?st)
            (runSizes (consRun (getCharacterType c, [c]) (runs cs)))"
      using Cons.prems st' by (intro Cons.IH) auto
    obtain g' rs where r: "runs (c # cs) = (getCharacterType c, g') # rs"
      using runs_head by blast
    then have "consRun (t, g) (runs (c # cs)) = (t, g) # runs (c # cs)"
      using False by auto
    then show ?thesis
      using ih by (simp add: st' runSizes_def)
  qed
qed

lemma stringIterator_nonempty: "\<forall>c \<in> set (stringIterator s). c \<noteq> []"
  by (induction s rule: stringIterator.induct) auto

lemma loop_runs:
  assumes "\<forall>c \<in> set cs. c \<noteq> []"
  shows "gs_breakdown (processGroup config (foldl (groupStep config)
           \<lparr>currentType = None, currentGroup = [], gs_breakdown = bd\<rparr> cs)) =
         foldl (addRun config) bd (runSizes (runs cs))"
proof (cases cs)
  case Nil
  then show ?thesis by (simp add: processGroup_null runSizes_def)
next
  case (Cons c cs')
  let ?st0 = "\<lparr>currentType = None, currentGroup = [], gs_breakdown = bd\<rparr>"
  let ?st = "groupStep config ?st0 c"
  have st': "currentType ?st = Some (getCharacterType c)" "currentGroup ?st = concat [c]"
    "gs_breakdown ?st = bd"
    by (simp_all add: groupStep_def Let_def processGroup_null)
  have "gs_breakdown (processGroup config (foldl (groupStep config) ?st cs')) =
        foldl (addRun config) (gs_breakdown ?st)
          (runSizes (consRun (getCharacterType c, [c]) (runs cs')))"
    using assms Cons st' by (intro loop_invariant) auto
  then show ?thesis
    using Cons by (simp add: st')
qed

lemma estimateDetailed_breakdown:
  assumes "text \<noteq> []"
  shows "breakdown (estimateDetailed est text modelName) =
         foldl (addRun (fst (getModelConfig est modelName)))
           \<lparr>b_cjk = 0, b_latin = 0, b_digits = 0, b_symbols = 0,
            b_overhead = overhead (fst (getModelConfig est modelName))\<rparr>
           (runSizes (runs (stringIterator text)))"
  using assms
  by (simp add: estimateDetailed_def Let_def loop_runs stringIterator_nonempty split: prod.splits)

lemma estimateDetailed_tokens:
  assumes "text \<noteq> []"
  shows "tokens (estimateDetailed est text modelName) =
         jceil (jmul (jmul (sumBreakdown (breakdown (estimateDetailed est text modelName)))
                       (mixedTextMultiplier (fst (getModelConfig est modelName))))
                 (calculateAdjustmentFactor (cjkRatio (analyzeTextComposition text))))"
  using assms
  by (simp add: estimateDetailed_def Let_def split: prod.splits)

lemma stringIterator_shape:
  "c \<in> set (stringIterator s) \<Longrightarrow>
     (\<exists>u. c = [u]) \<or> (\<exists>u v. c = [u, v] \<and> isLeadSurrogate u \<and> isTrailSurrogate v)"
  by (induction s rule: stringIterator.induct) (auto split: if_splits)

lemma surrogate_not_latin: "0xD800 \<le> unat u \<Longrightarrow> unat u \<le> 0xDFFF \<Longrightarrow> \<not> latinClass u"
  unfolding latinClass_def by linarith

lemma surrogate_not_digit: "0xD800 \<le> unat u \<Longrightarrow> unat u \<le> 0xDFFF \<Longrightarrow> \<not> digitClass u"
  unfolding digitClass_def by linarith

lemma surrogate_not_whitespace:
  "0xD800 \<le> unat u \<Longrightarrow> unat u \<le> 0xDFFF \<Longrightarrow> \<not> whitespaceClass u"
  unfolding whitespaceClass_def by linarith

lemma surrogate_pair_is_symbol:
  assumes "isLeadSurrogate u" and "isTrailSurrogate v"
  shows "getCharacterType [u, v] = Symbol"
proof -
  have u: "0xD800 \<le> unat u" "unat u \<le> 0xDFFF" and v: "0xD800 \<le> unat v" "unat v \<le> 0xDFFF"
    using assms by (simp_all add: isLeadSurrogate_def isTrailSurrogate_def)
  show ?thesis
    using isCJKCharacter_lead [OF assms(1)] surrogate_not_latin [OF u] surrogate_not_latin [OF v]
      surrogate_not_digit [OF u] surrogate_not_digit [OF v]
      surrogate_not_whitespace [OF u] surrogate_not_whitespace [OF v]
    by (simp add: getCharacterType_def regexTest_def)
qed

lemma non_symbol_single_unit:
  assumes "c \<in> set (stringIterator s)" and "getCharacterType c \<noteq> Symbol"
  shows "length c = 1"
proof -
  from stringIterator_shape [OF assms(1)]
  consider u where "c = [u]"
    | u v where "c = [u, v]" "isLeadSurrogate u" "isTrailSurrogate v"
    by blast
  then show ?thesis
  proof cases
    case 1
    then show ?thesis by simp
  next
    case 2
    then have "getCharacterType c = Symbol"
      by (simp add: surrogate_pair_is_symbol)
    with assms(2) show ?thesis by simp
  qed
qed

lemma concat_singletons: "\<forall>c \<in> set g. length c = 1 \<Longrightarrow> length (concat g) = length g"
  by (induction g) auto

lemma run_set_subset:
  assumes "(t, g) \<in> set (runs cs)"
  shows "set g \<subseteq> set cs"
proof -
  have "g \<in> set (map snd (runs cs))"
    using assms by force
  then have "set g \<subseteq> set (concat (map snd (runs cs)))"
    by (simp only: set_concat) blast
  then show ?thesis by (simp only: runs_concat)
qed

lemma non_symbol_run_length:
  assumes "(t, g) \<in> set (runs (stringIterator s))" and "t \<noteq> Symbol"
  shows "runLength g = length g"
proof -
  have "length c = 1" if "c \<in> set g" for c
  proof -
    have "c \<in> set (stringIterator s)"
      using that run_set_subset [OF assms(1)] by blast
    moreover have "getCharacterType c = t"
      using that runs_sound [OF assms(1)] by blast
    ultimately show ?thesis
      using assms(2) by (simp add: non_symbol_single_unit)
  qed
  then show ?thesis by (simp add: runLength_def concat_singletons)
qed

text \<open>
  So the loop adds, for each maximal run, what \<open>addRun\<close> says for the run's category and
  its number of code units, in the order of the text (lemma \<open>estimateDetailed_breakdown\<close>),
  and the token total is the ceiling of the sum of the breakdown, times the multiplier,
  times the adjustment factor (lemma \<open>estimateDetailed_tokens\<close>). For a run that is not a
  symbol run the number of code units is the number of characters (lemma
  \<open>non_symbol_run_length\<close>).

  With a configuration that has neither \<open>numberTokensPerChar\<close> nor
  \<open>symbolTokensPerChar\<close>, the text \<open>1234567!!!\<close> has a digit run of 7 and a symbol run
  of 3: the defaults 3.5 and 2.5 give 2 and 2.
\<close>

lemma bare_model: "getModelConfig bareEstimator None = (bareConfig, ''bare-model'')"
  by (simp add: getModelConfig_def bareEstimator_def newFuzzyTokenEstimator_def
      SimpleModelConfigProvider_def orString_def orStringLiteral_def truthyString_def orConfig_def)

lemma digits_symbols_runs:
  "runSizes (runs (stringIterator [0x31, 0x32, 0x33, 0x34, 0x35, 0x36, 0x37, 0x21, 0x21, 0x21])) =
     [(Digit, 7), (Symbol, 3)]"
  by (simp add: runSizes_def runLength_def classifier_defs)

lemma bare_defaults:
  "breakdown (estimateDetailed bareEstimator
      [0x31, 0x32, 0x33, 0x34, 0x35, 0x36, 0x37, 0x21, 0x21, 0x21] None) =
     \<lparr>b_cjk = 0, b_latin = 0, b_digits = lit 2, b_symbols = lit 2, b_overhead = lit 10\<rparr>"
proof -
  have "[0x31, 0x32, 0x33, 0x34, 0x35, 0x36, 0x37, 0x21, 0x21, 0x21] \<noteq> ([] :: jsstring)"
    by simp
  from estimateDetailed_breakdown [OF this, of bareEstimator None] show ?thesis
    unfolding digits_symbols_runs bare_model by (simp add: addRun_def bareConfig_def js_eval)
qed

text \<open>Evaluation on the text of two characters U+1F600 (code units D83D DE00 D83D DE00).\<close>

lemma emoji_iterator:
  "stringIterator [0xD83D, 0xDE00, 0xD83D, 0xDE00] = [[0xD83D, 0xDE00], [0xD83D, 0xDE00]]"
  by (simp add: isLeadSurrogate_def isTrailSurrogate_def)

lemma emoji_type: "getCharacterType [0xD83D, 0xDE00] = Symbol"
  by (simp add: classifier_defs)

lemma emoji_runs:
  "runs [[0xD83D, 0xDE00], [0xD83D, 0xDE00]] = [(Symbol, [[0xD83D, 0xDE00], [0xD83D, 0xDE00]])]"
  by (simp add: emoji_type)

lemma emoji_composition:
  "analyzeTextComposition [0xD83D, 0xDE00, 0xD83D, 0xDE00] =
     \<lparr>cjk = 0, latin = 0, digits = 0, symbols = 2, whitespace = 0, total = 4, cjkRatio = 0\<rparr>"
  unfolding analyzeTextComposition_def emoji_iterator
  by (simp add: countChar_def emoji_type js_eval)

lemma emoji_breakdown:
  "breakdown (estimateDetailed mockEstimator [0xD83D, 0xDE00, 0xD83D, 0xDE00] None) =
     \<lparr>b_cjk = 0, b_latin = 0, b_digits = 0, b_symbols = lit 2, b_overhead = lit 10\<rparr>"
proof -
  have "[0xD83D, 0xDE00, 0xD83D, 0xDE00] \<noteq> ([] :: jsstring)"
    by simp
  from estimateDetailed_breakdown [OF this, of mockEstimator None] show ?thesis
    unfolding emoji_iterator emoji_runs mockEstimator_default
    by (simp add: runSizes_def runLength_def addRun_def mockConfig_def js_eval)
qed

lemma emoji_tokens:
  "tokens (estimateDetailed mockEstimator [0xD83D, 0xDE00, 0xD83D, 0xDE00] None) = lit 13"
proof -
  have "[0xD83D, 0xDE00, 0xD83D, 0xDE00] \<noteq> ([] :: jsstring)"
    by simp
  from estimateDetailed_tokens [OF this, of mockEstimator None] show ?thesis
    unfolding emoji_breakdown emoji_composition mockEstimator_default
    by (simp add: sumBreakdown_def calculateAdjustmentFactor_def mockConfig_def js_eval)
qed

text \<open>
  C3. The claim: a symbol run of length \<open>L\<close> adds \<open>ceil (L / symbolTokensPerChar)\<close>, the
  runs being maximal runs of same-category characters. The text of two characters U+1F600
  is one symbol run of 2 characters, which by the claim adds \<open>ceil (2 / 2.5) = 1\<close> under the
  test suite's configuration (\<open>symbolTokensPerChar\<close> 2.5, overhead 10, multiplier 1.05),
  for a token total of \<open>ceil ((1 + 10) * 1.05 * 1.0) = 12\<close>. \<open>estimateDetailed\<close> collects the
  characters of the run one by one with \<open>for ... of\<close> but measures the run with
  \<open>currentGroup.length\<close>, which counts 4 code units: it adds \<open>ceil (4 / 2.5) = 2\<close> and
  returns the token total 13.
\<close>

theorem estimateDetailed_astral_run_counts_code_units:
  "runs (stringIterator [0xD83D, 0xDE00, 0xD83D, 0xDE00]) =
     [(Symbol, [[0xD83D, 0xDE00], [0xD83D, 0xDE00]])]
   \<and> symbolTokensPerChar (fst (getModelConfig mockEstimator None)) = Some (lit 2.5)
   \<and> jceil (jdiv (ofNat 2) (lit 2.5)) = lit 1
   \<and> b_symbols (breakdown (estimateDetailed mockEstimator [0xD83D, 0xDE00, 0xD83D, 0xDE00] None))
       = lit 2
   \<and> jceil (jmul (jmul (jadd (lit 1) (lit 10)) (lit 1.05)) (lit 1.0)) = lit 12
   \<and> tokens (estimateDetailed mockEstimator [0xD83D, 0xDE00, 0xD83D, 0xDE00] None) = lit 13"
  unfolding emoji_iterator emoji_runs emoji_breakdown emoji_tokens mockEstimator_default
  by (simp add: mockConfig_def js_eval)

section \<open>The cost calculator\<close>




lemma decimalDigits_nonempty: "decimalDigits n \<noteq> []"
  by (subst decimalDigits.simps) simp



















end
